theory Spec2Isabelle
  imports Main "HOL-Library.Sublist"
begin

section \<open>The entry point of the CEM grpc4bmi server\<close>

text \<open>
  The repository's own code is the function \<open>main\<close> of
  \<^verbatim>\<open>server/cem-grpc4bmi-server.cxx\<close>. Everything it calls lives in other projects:
  \<open>malloc\<close>, \<open>free\<close> and \<open>printf\<close> in the C library, \<open>register_bmi_cem\<close> and the
  callbacks it binds in the CEM library, \<open>run_bmi_server\<close> in grpc4bmi. The model below
  is \<open>main\<close> itself, line by line, run against a record that says how each of those
  calls behaves; \<open>main\<close> yields the events it performs, in order, and the way the
  process ends.
\<close>

subsection \<open>Data\<close>

type_synonym addr = nat

text \<open>
  A pointer is \<open>addr option\<close>, with \<open>None\<close> the null pointer.

  A call into code outside the file either returns a value, or never returns to \<open>main\<close>
  (it blocks for ever, or the process is killed while it runs), or lets a C++ exception
  escape, or ends the process itself by \<open>exit\<close> with a status, or has undefined
  behaviour itself.
\<close>

datatype 'a ext = Returns 'a | Never_returns | Throws | Exits int | Faults

text \<open>
  \<^verbatim>\<open>model->get_component_name(model, model_name)\<close>: the callback receives the handle
  and the address of the buffer, and no capacity. What it does is the list of bytes it
  stores from \<open>model_name[0]\<close> on.
\<close>

type_synonym name_fn = "addr \<Rightarrow> string ext"

text \<open>
  The \<open>Bmi\<close> structure, as far as \<open>main\<close> reads it: the slot \<open>get_component_name\<close>,
  \<open>None\<close> while it holds no function.
\<close>

record Bmi =
  get_component_name :: "name_fn option"

text \<open>
  What the file takes from outside: the constant \<open>BMI_MAX_COMPONENT_NAME\<close> of the BMI
  header, the pointer \<open>malloc(sizeof(Bmi))\<close> returns, the structure \<open>register_bmi_cem\<close>
  leaves behind the handle, and the behaviour of \<open>run_bmi_server\<close>. The statement
  \<^verbatim>\<open>run_bmi_server(model, argc, argv);\<close> discards whatever the call may return, so
  its value is \<open>unit\<close>.
\<close>

record externals =
  BMI_MAX_COMPONENT_NAME :: nat
  malloc :: "addr option"
  register_bmi_cem :: "addr option \<Rightarrow> Bmi ext"
  run_bmi_server :: "addr option \<Rightarrow> int \<Rightarrow> string list \<Rightarrow> unit ext"

datatype event =
    Printf string
  | Malloc "addr option"
  | Register "addr option"
  | Get_component_name "addr option"
  | Run_server "addr option" int "string list"
  | Free "addr option"

text \<open>
  The end of the process: \<open>main\<close> returns a code, or an undefined operation was
  performed, or an external call never came back, or an exception left \<open>main\<close>
  (\<open>std::terminate\<close>), or an external call ended the process by \<open>exit\<close> with a status.
\<close>

datatype outcome = Exit int | Undefined | Blocked | Terminated | Exited int


subsection \<open>Sequencing\<close>

definition emit :: "event \<Rightarrow> event list \<times> outcome \<Rightarrow> event list \<times> outcome" where
  "emit e rest = (e # fst rest, snd rest)"

definition ext_call ::
  "event \<Rightarrow> 'a ext \<Rightarrow> ('a \<Rightarrow> event list \<times> outcome) \<Rightarrow> event list \<times> outcome" where
  "ext_call e r k =
     (case r of
        Returns v \<Rightarrow> emit e (k v)
      | Never_returns \<Rightarrow> ([e], Blocked)
      | Throws \<Rightarrow> ([e], Terminated)
      | Exits k \<Rightarrow> ([e], Exited k)
      | Faults \<Rightarrow> ([e], Undefined))"

subsection \<open>The name buffer\<close>

definition NUL :: char where
  "NUL = CHR 0x00"

definition newline :: char where
  "newline = CHR 0x0A"

text \<open>
  \<^verbatim>\<open>char model_name[BMI_MAX_COMPONENT_NAME];\<close> is an array of \<open>n\<close> bytes, none of them
  written yet (\<open>None\<close>). Storing more than \<open>n\<close> bytes runs past the array.
\<close>

definition store_name :: "nat \<Rightarrow> string \<Rightarrow> char option list option" where
  "store_name n ws =
     (if length ws > n then None
      else Some (map Some ws @ replicate (n - length ws) None))"

text \<open>
  \<^verbatim>\<open>printf("%s\n", model_name)\<close> reads the array up to the first NUL. Reading a byte
  that was never written, or past the end of the array, is not defined.
\<close>

fun c_string :: "char option list \<Rightarrow> string option" where
  "c_string [] = None"
| "c_string (None # bs) = None"
| "c_string (Some b # bs) =
     (if b = NUL then Some [] else map_option ((#) b) (c_string bs))"

subsection \<open>main\<close>

definition banner :: string where
  "banner = ''CEM grpc4bmi server'' @ [newline]"

text \<open>Lines 15 to 20: the block that queries and prints the component name.\<close>

definition name_block ::
  "externals \<Rightarrow> addr option \<Rightarrow> Bmi \<Rightarrow> event list \<times> outcome \<Rightarrow> event list \<times> outcome" where
  "name_block X model bmi rest =
     (case model of
        None \<Rightarrow> ([], Undefined)
      | Some a \<Rightarrow>
          (case get_component_name bmi of
             None \<Rightarrow> ([], Undefined)
           | Some f \<Rightarrow>
               ext_call (Get_component_name model) (f a) (\<lambda>ws.
                 case store_name (BMI_MAX_COMPONENT_NAME X) ws of
                   None \<Rightarrow> ([], Undefined)
                 | Some model_name \<Rightarrow>
                     (case c_string model_name of
                        None \<Rightarrow> ([], Undefined)
                      | Some s \<Rightarrow> emit (Printf (s @ [newline])) rest))))"

definition main :: "externals \<Rightarrow> int \<Rightarrow> string list \<Rightarrow> event list \<times> outcome" where
  "main X argc argv =
     emit (Printf banner)
       (let model = malloc X in
        emit (Malloc model)
          (ext_call (Register model) (register_bmi_cem X model) (\<lambda>bmi.
             name_block X model bmi
               (ext_call (Run_server model argc argv) (run_bmi_server X model argc argv) (\<lambda>_.
                  emit (Free model) ([], Exit 0))))))"

definition trace :: "event list \<times> outcome \<Rightarrow> event list" where
  "trace r = fst r"

definition result :: "event list \<times> outcome \<Rightarrow> outcome" where
  "result r = snd r"

fun printed :: "event list \<Rightarrow> string list" where
  "printed [] = []"
| "printed (Printf s # es) = s # printed es"
| "printed (e # es) = printed es"


text \<open>The events of a run up to, and without, the call of \<open>run_bmi_server\<close>.\<close>

fun is_server_call :: "event \<Rightarrow> bool" where
  "is_server_call (Run_server h c v) = True"
| "is_server_call e = False"

definition before_server :: "event list \<Rightarrow> event list" where
  "before_server es = takeWhile (\<lambda>e. \<not> is_server_call e) es"

text \<open>
  The steps of section 2 of the specification, in its order, after the banner of line 9:
  allocate, register, query the name, log it, serve, release.
\<close>

definition startup_sequence :: "addr option \<Rightarrow> string \<Rightarrow> int \<Rightarrow> string list \<Rightarrow> event list" where
  "startup_sequence model s argc argv =
     [Printf banner, Malloc model, Register model, Get_component_name model,
      Printf (s @ [newline]), Run_server model argc argv, Free model]"

text \<open>
  The name the handle reports: the bytes its \<open>get_component_name\<close> stores, up to the
  first NUL (empty when the query is not reached or does not return).
\<close>

definition reported_name :: "externals \<Rightarrow> string" where
  "reported_name X =
     (case malloc X of
        None \<Rightarrow> []
      | Some a \<Rightarrow>
          (case register_bmi_cem X (Some a) of
             Returns bmi \<Rightarrow>
               (case get_component_name bmi of
                  None \<Rightarrow> []
                | Some f \<Rightarrow>
                    (case f a of
                       Returns ws \<Rightarrow> takeWhile (\<lambda>c. c \<noteq> NUL) ws
                     | _ \<Rightarrow> []))
           | _ \<Rightarrow> []))"

text \<open>
  The query of the name is made: the allocation succeeded, \<open>register_bmi_cem\<close> returned
  and left the slot \<open>get_component_name\<close> bound.
\<close>

definition query_called :: "externals \<Rightarrow> bool" where
  "query_called X =
     (case malloc X of
        None \<Rightarrow> False
      | Some a \<Rightarrow>
          (case register_bmi_cem X (Some a) of
             Returns bmi \<Rightarrow> get_component_name bmi \<noteq> None
           | _ \<Rightarrow> False))"

text \<open>
  Everything before the call of \<open>run_bmi_server\<close> goes well: the query is made, the
  callback returns, and what it stored fits into the buffer and holds a NUL. The
  command line plays no part in it.
\<close>

definition startup_ok :: "externals \<Rightarrow> bool" where
  "startup_ok X =
     (case malloc X of
        None \<Rightarrow> False
      | Some a \<Rightarrow>
          (case register_bmi_cem X (Some a) of
             Returns bmi \<Rightarrow>
               (case get_component_name bmi of
                  None \<Rightarrow> False
                | Some f \<Rightarrow>
                    (case f a of
                       Returns ws \<Rightarrow> length ws \<le> BMI_MAX_COMPONENT_NAME X \<and> NUL \<in> set ws
                     | _ \<Rightarrow> False))
           | _ \<Rightarrow> False))"

text \<open>
  How many steps of \<open>startup_sequence\<close> a run performs: all seven when the server
  returns, six when it is entered and does not return, four when the query is made but
  goes wrong, three (banner, allocation, registrar's call) otherwise.
\<close>

definition steps_done :: "externals \<Rightarrow> int \<Rightarrow> string list \<Rightarrow> nat" where
  "steps_done X argc argv =
     (if startup_ok X then
        (case run_bmi_server X (malloc X) argc argv of Returns u \<Rightarrow> 7 | _ \<Rightarrow> 6)
      else if query_called X then 4
      else 3)"

subsection \<open>Sample environments\<close>

definition sample_get_component_name :: name_fn where
  "sample_get_component_name self = Returns (''cem'' @ [NUL])"

definition sample_bmi :: Bmi where
  "sample_bmi = \<lparr>get_component_name = Some sample_get_component_name\<rparr>"

text \<open>Every call succeeds and the server returns after a clean shutdown.\<close>

definition sample_externals :: externals where
  "sample_externals =
     \<lparr>BMI_MAX_COMPONENT_NAME = 2048,
      malloc = Some 4096,
      register_bmi_cem = (\<lambda>model. Returns sample_bmi),
      run_bmi_server = (\<lambda>model argc argv. Returns ())\<rparr>"

text \<open>\<open>malloc\<close> returns the null pointer; \<open>register_bmi_cem\<close> returns all the same.\<close>

definition alloc_fails_externals :: externals where
  "alloc_fails_externals = sample_externals\<lparr>malloc := None\<rparr>"

text \<open>The server serves until the process is killed: \<open>run_bmi_server\<close> never returns.\<close>

definition server_blocks_externals :: externals where
  "server_blocks_externals =
     sample_externals\<lparr>run_bmi_server := (\<lambda>model argc argv. Never_returns)\<rparr>"

text \<open>The server ends the process by \<open>exit(2)\<close>.\<close>

definition server_exits_externals :: externals where
  "server_exits_externals =
     sample_externals\<lparr>run_bmi_server := (\<lambda>model argc argv. Exits 2)\<rparr>"

text \<open>An exception escapes from \<open>run_bmi_server\<close>.\<close>

definition server_throws_externals :: externals where
  "server_throws_externals =
     sample_externals\<lparr>run_bmi_server := (\<lambda>model argc argv. Throws)\<rparr>"

text \<open>The buffer has room for three bytes only; the callback stores four.\<close>

definition small_buffer_externals :: externals where
  "small_buffer_externals = sample_externals\<lparr>BMI_MAX_COMPONENT_NAME := 3\<rparr>"

section \<open>Properties of main\<close>

subsection \<open>Auxiliary facts\<close>

lemma c_string_unwritten: "c_string (replicate k None) = None"
  by (cases k) simp_all

lemma c_string_written:
  "c_string (map Some ws @ replicate k None) =
     (if NUL \<in> set ws then Some (takeWhile (\<lambda>c. c \<noteq> NUL) ws) else None)"
  by (induction ws) (auto simp: c_string_unwritten)

lemma read_name:
  "(case store_name n ws of None \<Rightarrow> A
    | Some b \<Rightarrow> (case c_string b of None \<Rightarrow> A | Some s \<Rightarrow> B s)) =
   (if length ws \<le> n \<and> NUL \<in> set ws then B (takeWhile (\<lambda>c. c \<noteq> NUL) ws) else A)"
  by (simp add: store_name_def c_string_written)

lemmas main_unfold =
  main_def name_block_def ext_call_def emit_def Let_def trace_def result_def read_name

lemmas sample_defs =
  sample_externals_def sample_bmi_def sample_get_component_name_def
  alloc_fails_externals_def server_blocks_externals_def server_exits_externals_def
  server_throws_externals_def
  small_buffer_externals_def NUL_def newline_def banner_def

lemma sample_run:
  "main sample_externals argc argv =
     (startup_sequence (Some 4096) ''cem'' argc argv, Exit 0)"
  by (simp add: main_unfold sample_defs startup_sequence_def)

lemma server_throws_run:
  "main server_throws_externals argc argv =
     ([Printf banner, Malloc (Some 4096), Register (Some 4096), Get_component_name (Some 4096),
       Printf (''cem'' @ [newline]), Run_server (Some 4096) argc argv], Terminated)"
  by (simp add: main_unfold sample_defs)

lemma sample_reported_name: "reported_name sample_externals = ''cem''"
  by (simp add: reported_name_def sample_defs)

subsection \<open>Release of the handle\<close>

lemma free_event:
  "Free h \<in> set (trace (main X argc argv)) \<Longrightarrow>
     h = malloc X \<and> result (main X argc argv) = Exit 0"
  by (auto simp: main_unfold split: ext.splits option.splits if_splits)

lemma exit_server_returned:
  "result (main X argc argv) = Exit c \<Longrightarrow>
     \<exists>e. run_bmi_server X (malloc X) argc argv = Returns e"
  by (auto simp: main_unfold split: ext.splits option.splits if_splits)

lemma exit_whole_sequence:
  "result (main X argc argv) = Exit c \<Longrightarrow>
     trace (main X argc argv) =
       startup_sequence (malloc X) (reported_name X) argc argv"
  by (auto simp: main_unfold startup_sequence_def reported_name_def
      split: ext.splits option.splits if_splits)

text \<open>
  Claim C3. The handle is not freed while the server loop may still use it: whenever
  \<open>free\<close> is called, the event just before it is the call of \<open>run_bmi_server\<close> with the
  same handle, that call has returned, and nothing was freed earlier.
\<close>

theorem free_after_server:
  assumes "Free h \<in> set (trace (main X argc argv))"
  shows "(\<exists>es. trace (main X argc argv) = es @ [Run_server h argc argv, Free h]
            \<and> (\<forall>h'. Free h' \<notin> set es))
         \<and> (\<exists>e. run_bmi_server X h argc argv = Returns e)"
proof -
  from free_event [OF assms]
  have h: "h = malloc X" and r: "result (main X argc argv) = Exit 0"
    by simp_all
  define es where
    "es = [Printf banner, Malloc h, Register h, Get_component_name h,
           Printf (reported_name X @ [newline])]"
  from exit_whole_sequence [OF r] h
  have "trace (main X argc argv) = es @ [Run_server h argc argv, Free h]"
    by (simp add: startup_sequence_def es_def)
  moreover have "\<forall>h'. Free h' \<notin> set es"
    by (simp add: es_def)
  moreover from exit_server_returned [OF r] h
  have "\<exists>e. run_bmi_server X h argc argv = Returns e"
    by simp
  ultimately show ?thesis by blast
qed

theorem free_after_server_witness:
  "Free (Some 4096) \<in> set (trace (main sample_externals 1 [''cem-grpc4bmi-server'']))
   \<and> (\<exists>es. trace (main sample_externals 1 [''cem-grpc4bmi-server'']) =
          es @ [Run_server (Some 4096) 1 [''cem-grpc4bmi-server''], Free (Some 4096)]
        \<and> (\<forall>h'. Free h' \<notin> set es))
   \<and> (\<exists>e. run_bmi_server sample_externals (Some 4096) 1 [''cem-grpc4bmi-server''] = Returns e)"
proof -
  have h: "Free (Some 4096) \<in> set (trace (main sample_externals 1 [''cem-grpc4bmi-server'']))"
    by (simp add: sample_run trace_def startup_sequence_def)
  from free_after_server [OF h] h show ?thesis by blast
qed

subsection \<open>Failure of the allocation\<close>

lemma null_handle_trace:
  "malloc X = None \<Longrightarrow>
     trace (main X argc argv) = [Printf banner, Malloc None, Register None]"
  by (simp add: main_unfold split: ext.splits)

lemma null_handle_result:
  "malloc X = None \<Longrightarrow>
     result (main X argc argv) =
       (case register_bmi_cem X None of
          Returns bmi \<Rightarrow> Undefined
        | Never_returns \<Rightarrow> Blocked
        | Throws \<Rightarrow> Terminated
        | Exits k \<Rightarrow> Exited k
        | Faults \<Rightarrow> Undefined)"
  by (simp add: main_unfold split: ext.splits)

text \<open>
  Claim C4 says that a failed allocation ends the process with a non-zero code before
  anything is registered. In the run where \<open>malloc\<close> returns the null pointer,
  \<open>register_bmi_cem\<close> is called with that null pointer, and the run ends in the
  undefined dereference of line 18, not in an exit code.
\<close>

theorem alloc_failure_registers:
  "Register None \<in> set (trace (main alloc_fails_externals 1 [''cem-grpc4bmi-server'']))
   \<and> result (main alloc_fails_externals 1 [''cem-grpc4bmi-server'']) = Undefined"
  by (simp add: main_unfold sample_defs)

text \<open>
  Claim C4, amended. When the allocation fails \<open>main\<close> does not notice: it calls
  \<open>register_bmi_cem\<close> with the null handle; the server is never started and nothing is
  freed; \<open>main\<close> returns no exit code, the run ends as the registrar's call ends or, when
  that call returns, in the dereference of the null handle.
\<close>

theorem alloc_failure_unchecked:
  assumes "malloc X = None"
  shows "Register None \<in> set (trace (main X argc argv))
    \<and> (\<forall>h c v. Run_server h c v \<notin> set (trace (main X argc argv)))
    \<and> (\<forall>h. Free h \<notin> set (trace (main X argc argv)))
    \<and> result (main X argc argv) =
        (case register_bmi_cem X None of
           Returns bmi \<Rightarrow> Undefined
         | Never_returns \<Rightarrow> Blocked
         | Throws \<Rightarrow> Terminated
         | Exits k \<Rightarrow> Exited k
         | Faults \<Rightarrow> Undefined)"
  using null_handle_trace [OF assms, of argc argv] null_handle_result [OF assms, of argc argv]
  by simp

theorem alloc_failure_unchecked_witness:
  "malloc alloc_fails_externals = None
   \<and> Register None \<in> set (trace (main alloc_fails_externals 0 []))
   \<and> result (main alloc_fails_externals 0 []) = Undefined"
proof -
  have m: "malloc alloc_fails_externals = None"
    by (simp add: sample_defs)
  have r: "register_bmi_cem alloc_fails_externals None = Returns sample_bmi"
    by (simp add: alloc_fails_externals_def sample_externals_def)
  from alloc_failure_unchecked [OF m, of 0 "[]"] m r show ?thesis by simp
qed

subsection \<open>Runs that reach the server, and runs that do not\<close>

lemma served_trace:
  "startup_ok X \<longrightarrow>
     trace (main X argc argv) =
       take (case run_bmi_server X (malloc X) argc argv of Returns u \<Rightarrow> 7 | _ \<Rightarrow> 6)
         (startup_sequence (malloc X) (reported_name X) argc argv)"
  by (simp add: main_unfold startup_ok_def startup_sequence_def reported_name_def
      split: ext.split option.split)


lemma not_served_trace:
  "startup_ok X \<or>
     trace (main X argc argv) =
       take (if query_called X then 4 else 3)
         (startup_sequence (malloc X) (reported_name X) argc argv)"
  by (auto simp: main_unfold startup_ok_def query_called_def startup_sequence_def
      reported_name_def split: ext.split option.split)

lemma not_served_run:
  "startup_ok X \<or> main X argc argv = main X argc' argv'"
  by (auto simp: main_unfold startup_ok_def split: ext.split option.split)

lemma served_iff:
  "startup_ok X \<longleftrightarrow> Run_server (malloc X) argc argv \<in> set (trace (main X argc argv))"
  by (auto simp: main_unfold startup_ok_def split: ext.split option.split)

lemma sample_startup_ok:
  "startup_ok sample_externals" "startup_ok server_throws_externals"
  "startup_ok server_exits_externals" "startup_ok server_blocks_externals"
  by (simp_all add: startup_ok_def sample_defs)

lemma sample_malloc:
  "malloc sample_externals = Some 4096" "malloc server_throws_externals = Some 4096"
  "malloc server_exits_externals = Some 4096" "malloc server_blocks_externals = Some 4096"
  "malloc alloc_fails_externals = None"
  by (simp_all add: sample_defs)

lemma sample_server:
  "run_bmi_server sample_externals h c v = Returns ()"
  "run_bmi_server server_throws_externals h c v = Throws"
  "run_bmi_server server_exits_externals h c v = Exits 2"
  "run_bmi_server server_blocks_externals h c v = Never_returns"
  by (simp_all add: sample_defs)

subsection \<open>The exit code\<close>



subsection \<open>The command line\<close>

lemma server_call_args:
  "Run_server h c v \<in> set (trace (main X argc argv)) \<Longrightarrow>
     h = malloc X \<and> c = argc \<and> v = argv"
  by (auto simp: main_unfold split: ext.splits option.splits if_splits)

lemma server_call_once:
  "length (filter is_server_call (trace (main X argc argv))) \<le> 1"
  by (simp add: main_unfold split: ext.splits option.splits if_splits)

lemma before_server_args:
  "before_server (trace (main X argc argv)) = before_server (trace (main X argc' argv'))"
  by (simp add: main_unfold before_server_def split: ext.splits option.splits if_splits)

lemma exit_server_called:
  "result (main X argc argv) = Exit c \<Longrightarrow>
     Run_server (malloc X) argc argv \<in> set (trace (main X argc argv))"
  by (auto simp: main_unfold split: ext.splits option.splits if_splits)

lemma served_first_six:
  "startup_ok X \<Longrightarrow>
     take 6 (trace (main X argc argv)) =
       [Printf banner, Malloc (malloc X), Register (malloc X), Get_component_name (malloc X),
        Printf (reported_name X @ [newline]), Run_server (malloc X) argc argv]"
  using served_trace [of X argc argv]
  by (simp add: startup_sequence_def split: ext.split)

text \<open>
  Claim C6. \<open>main\<close> has no flags of its own and hands its arguments on as they are.
  Whether the server is called does not depend on the command line: it is called
  exactly when the steps before it go well, and then the sixth event of the run, after
  five that do not mention the arguments, is the call of \<open>run_bmi_server\<close> with the
  handle, \<open>argc\<close> and \<open>argv\<close> of \<open>main\<close> unchanged. There is no other such call, no call
  carries anything else, and what \<open>main\<close> does before it is the same for any two
  argument lists; a run that does not reach the server is the same for any two argument
  lists altogether.
\<close>

theorem args_forwarded:
  "(\<forall>h c v. Run_server h c v \<in> set (trace (main X argc argv)) \<longrightarrow>
       h = malloc X \<and> c = argc \<and> v = argv)
   \<and> length (filter is_server_call (trace (main X argc argv))) \<le> 1
   \<and> before_server (trace (main X argc argv)) = before_server (trace (main X argc' argv'))
   \<and> (\<forall>c. result (main X argc argv) = Exit c \<longrightarrow>
         Run_server (malloc X) argc argv \<in> set (trace (main X argc argv)))
   \<and> (startup_ok X \<longleftrightarrow> Run_server (malloc X) argc argv \<in> set (trace (main X argc argv)))
   \<and> (startup_ok X \<longrightarrow>
         take 6 (trace (main X argc argv)) =
           [Printf banner, Malloc (malloc X), Register (malloc X),
            Get_component_name (malloc X), Printf (reported_name X @ [newline]),
            Run_server (malloc X) argc argv])
   \<and> (\<not> startup_ok X \<longrightarrow> main X argc argv = main X argc' argv')"
proof -
  have "\<forall>h c v. Run_server h c v \<in> set (trace (main X argc argv)) \<longrightarrow>
       h = malloc X \<and> c = argc \<and> v = argv"
    using server_call_args [of _ _ _ X argc argv] by blast
  moreover have "\<forall>c. result (main X argc argv) = Exit c \<longrightarrow>
         Run_server (malloc X) argc argv \<in> set (trace (main X argc argv))"
    using exit_server_called [of X argc argv] by blast
  moreover note server_call_once [of X argc argv]
    before_server_args [of X argc argv argc' argv']
    served_iff [of X argc argv]
  moreover have "startup_ok X \<longrightarrow>
         take 6 (trace (main X argc argv)) =
           [Printf banner, Malloc (malloc X), Register (malloc X),
            Get_component_name (malloc X), Printf (reported_name X @ [newline]),
            Run_server (malloc X) argc argv]"
    using served_first_six [of X argc argv] by blast
  moreover have "\<not> startup_ok X \<longrightarrow> main X argc argv = main X argc' argv'"
    using not_served_run [of X argc argv argc' argv'] by blast
  ultimately show ?thesis by blast
qed

theorem args_forwarded_witness:
  "startup_ok sample_externals
   \<and> Run_server (Some 4096) 2 [''cem-grpc4bmi-server'', ''55555'']
      \<in> set (trace (main sample_externals 2 [''cem-grpc4bmi-server'', ''55555'']))
   \<and> take 6 (trace (main sample_externals 2 [''cem-grpc4bmi-server'', ''55555''])) =
       [Printf banner, Malloc (Some 4096), Register (Some 4096),
        Get_component_name (Some 4096), Printf (''cem'' @ [newline]),
        Run_server (Some 4096) 2 [''cem-grpc4bmi-server'', ''55555'']]
   \<and> result (main sample_externals 2 [''cem-grpc4bmi-server'', ''55555'']) = Exit 0
   \<and> before_server (trace (main sample_externals 2 [''cem-grpc4bmi-server'', ''55555''])) =
       before_server (trace (main sample_externals 0 []))
   \<and> \<not> startup_ok alloc_fails_externals
   \<and> main alloc_fails_externals 2 [''cem-grpc4bmi-server'', ''55555''] =
       main alloc_fails_externals 0 []"
proof -
  have r: "result (main sample_externals 2 [''cem-grpc4bmi-server'', ''55555'']) = Exit 0"
    by (simp add: sample_run result_def)
  have n: "\<not> startup_ok alloc_fails_externals"
    by (simp add: startup_ok_def sample_defs)
  note ok = sample_startup_ok(1)
  note A = args_forwarded [of sample_externals 2 "[''cem-grpc4bmi-server'', ''55555'']" 0 "[]"]
  note B = args_forwarded [of alloc_fails_externals 2 "[''cem-grpc4bmi-server'', ''55555'']" 0 "[]"]
  from A ok
  have "Run_server (malloc sample_externals) 2 [''cem-grpc4bmi-server'', ''55555'']
      \<in> set (trace (main sample_externals 2 [''cem-grpc4bmi-server'', ''55555'']))"
    by blast
  then have c: "Run_server (Some 4096) 2 [''cem-grpc4bmi-server'', ''55555'']
      \<in> set (trace (main sample_externals 2 [''cem-grpc4bmi-server'', ''55555'']))"
    by (simp only: sample_malloc)
  from A ok
  have "take 6 (trace (main sample_externals 2 [''cem-grpc4bmi-server'', ''55555''])) =
       [Printf banner, Malloc (malloc sample_externals), Register (malloc sample_externals),
        Get_component_name (malloc sample_externals),
        Printf (reported_name sample_externals @ [newline]),
        Run_server (malloc sample_externals) 2 [''cem-grpc4bmi-server'', ''55555'']]"
    by blast
  then have t: "take 6 (trace (main sample_externals 2 [''cem-grpc4bmi-server'', ''55555''])) =
       [Printf banner, Malloc (Some 4096), Register (Some 4096),
        Get_component_name (Some 4096), Printf (''cem'' @ [newline]),
        Run_server (Some 4096) 2 [''cem-grpc4bmi-server'', ''55555'']]"
    by (simp only: sample_malloc sample_reported_name)
  from A
  have b: "before_server (trace (main sample_externals 2 [''cem-grpc4bmi-server'', ''55555''])) =
       before_server (trace (main sample_externals 0 []))"
    by blast
  from B n
  have e: "main alloc_fails_externals 2 [''cem-grpc4bmi-server'', ''55555''] =
       main alloc_fails_externals 0 []"
    by blast
  from ok c t r b n e show ?thesis by blast
qed

subsection \<open>The order of the steps\<close>

lemma trace_prefix:
  "prefix (trace (main X argc argv))
     (startup_sequence (malloc X) (reported_name X) argc argv)"
  by (simp add: main_unfold startup_sequence_def reported_name_def
      split: ext.splits option.splits if_splits)

lemma steps_trace:
  "trace (main X argc argv) =
     take (steps_done X argc argv) (startup_sequence (malloc X) (reported_name X) argc argv)"
  using served_trace [of X argc argv] not_served_trace [of X argc argv]
  by (cases "startup_ok X") (simp_all add: steps_done_def)

lemma steps_exit:
  "result (main X argc argv) = Exit 0 \<longleftrightarrow> steps_done X argc argv = 7"
  by (auto simp: steps_done_def main_unfold startup_ok_def query_called_def
      split: ext.split option.split)

lemma steps_bounds:
  "3 \<le> steps_done X argc argv"
  "startup_ok X \<Longrightarrow> 6 \<le> steps_done X argc argv"
  by (simp_all add: steps_done_def split: ext.splits)

text \<open>
  Claim C7 says that in every execution each step (allocate, register, query and log
  the name, serve, release) occurs exactly once. In the run where \<open>malloc\<close> returns the
  null pointer there is no handle, and after the registrar's call nothing follows: no
  query, no server, no release.
\<close>

theorem alloc_fails_run:
  "main alloc_fails_externals 1 [''cem-grpc4bmi-server''] =
     ([Printf (''CEM grpc4bmi server'' @ [CHR 0x0A]), Malloc None, Register None], Undefined)"
  by (simp add: main_unfold sample_defs)

text \<open>
  Claim C7, amended. The events of every execution are the first \<open>steps_done\<close> steps of
  one fixed sequence: the banner, then allocate, register, query the name, log it, serve,
  release, each once, in this order and on the same handle; so no step is repeated and
  none is taken out of order. Every execution gets as far as the registrar's call. When
  the allocation succeeds, the registrar returns with the slot bound and the callback
  returns a name that fits the buffer, the execution goes on to enter the server, and it
  performs the last step, the release, exactly when the server returns, which is exactly
  when \<open>main\<close> returns 0. An execution where one of those conditions fails stops after
  the registrar's call or after the query.
\<close>

theorem startup_order:
  "trace (main X argc argv) =
     take (steps_done X argc argv) (startup_sequence (malloc X) (reported_name X) argc argv)
   \<and> prefix (trace (main X argc argv))
       (startup_sequence (malloc X) (reported_name X) argc argv)
   \<and> 3 \<le> steps_done X argc argv
   \<and> (startup_ok X \<longrightarrow> 6 \<le> steps_done X argc argv)
   \<and> (startup_ok X \<longrightarrow>
        (steps_done X argc argv = 7 \<longleftrightarrow>
           (\<exists>u. run_bmi_server X (malloc X) argc argv = Returns u)))
   \<and> (\<not> startup_ok X \<longrightarrow> steps_done X argc argv \<le> 4)
   \<and> (result (main X argc argv) = Exit 0 \<longleftrightarrow> steps_done X argc argv = 7)
   \<and> (\<forall>c. result (main X argc argv) = Exit c \<longrightarrow>
         trace (main X argc argv) =
           startup_sequence (malloc X) (reported_name X) argc argv)"
proof -
  have "startup_ok X \<longrightarrow>
        (steps_done X argc argv = 7 \<longleftrightarrow>
           (\<exists>u. run_bmi_server X (malloc X) argc argv = Returns u))"
    by (simp add: steps_done_def split: ext.splits)
  moreover have "\<not> startup_ok X \<longrightarrow> steps_done X argc argv \<le> 4"
    by (simp add: steps_done_def)
  moreover have "startup_ok X \<longrightarrow> 6 \<le> steps_done X argc argv"
    using steps_bounds(2) [of X argc argv] by blast
  moreover have "\<forall>c. result (main X argc argv) = Exit c \<longrightarrow>
         trace (main X argc argv) =
           startup_sequence (malloc X) (reported_name X) argc argv"
    using exit_whole_sequence [of X argc argv] by blast
  moreover note steps_trace [of X argc argv] trace_prefix [of X argc argv]
    steps_bounds(1) [of X argc argv] steps_exit [of X argc argv]
  ultimately show ?thesis by blast
qed

theorem startup_order_witness:
  "startup_ok sample_externals
   \<and> result (main sample_externals 1 [''cem-grpc4bmi-server'']) = Exit 0
   \<and> trace (main sample_externals 1 [''cem-grpc4bmi-server'']) =
       startup_sequence (Some 4096) ''cem'' 1 [''cem-grpc4bmi-server'']
   \<and> startup_ok server_blocks_externals
   \<and> steps_done server_blocks_externals 1 [''cem-grpc4bmi-server''] = 6
   \<and> trace (main server_blocks_externals 1 [''cem-grpc4bmi-server'']) =
       take 6 (startup_sequence (Some 4096) ''cem'' 1 [''cem-grpc4bmi-server''])
   \<and> \<not> startup_ok alloc_fails_externals
   \<and> steps_done alloc_fails_externals 1 [''cem-grpc4bmi-server''] \<le> 4"
proof -
  have r: "result (main sample_externals 1 [''cem-grpc4bmi-server'']) = Exit 0"
    by (simp add: sample_run result_def)
  have n: "\<not> startup_ok alloc_fails_externals"
    by (simp add: startup_ok_def sample_defs)
  have b: "reported_name server_blocks_externals = ''cem''"
    by (simp add: reported_name_def sample_defs)
  have s: "steps_done server_blocks_externals 1 [''cem-grpc4bmi-server''] = 6"
    by (simp add: steps_done_def sample_startup_ok sample_server)
  from startup_order [of sample_externals 1 "[''cem-grpc4bmi-server'']"] r
  have t: "trace (main sample_externals 1 [''cem-grpc4bmi-server'']) =
      startup_sequence (malloc sample_externals) (reported_name sample_externals) 1
        [''cem-grpc4bmi-server'']"
    by blast
  from startup_order [of server_blocks_externals 1 "[''cem-grpc4bmi-server'']"]
  have u: "trace (main server_blocks_externals 1 [''cem-grpc4bmi-server'']) =
      take (steps_done server_blocks_externals 1 [''cem-grpc4bmi-server''])
        (startup_sequence (malloc server_blocks_externals)
           (reported_name server_blocks_externals) 1 [''cem-grpc4bmi-server''])"
    by blast
  from startup_order [of alloc_fails_externals 1 "[''cem-grpc4bmi-server'']"] n
  have v: "steps_done alloc_fails_externals 1 [''cem-grpc4bmi-server''] \<le> 4"
    by blast
  have t': "trace (main sample_externals 1 [''cem-grpc4bmi-server'']) =
      startup_sequence (Some 4096) ''cem'' 1 [''cem-grpc4bmi-server'']"
    using t by (simp add: sample_malloc sample_reported_name)
  have u': "trace (main server_blocks_externals 1 [''cem-grpc4bmi-server'']) =
      take 6 (startup_sequence (Some 4096) ''cem'' 1 [''cem-grpc4bmi-server''])"
    using u by (simp only: s b sample_malloc)
  from r t' u' v n s sample_startup_ok(1) sample_startup_ok(4)
  show ?thesis by blast
qed

subsection \<open>What main prints\<close>

lemma printed_lines:
  "printed (trace (main X argc argv)) = [banner]
   \<or> printed (trace (main X argc argv)) = [banner, reported_name X @ [newline]]"
  by (simp add: main_unfold reported_name_def split: ext.splits option.splits if_splits)

lemma printed_before_server:
  "printed (before_server (trace (main X argc argv))) = printed (trace (main X argc argv))"
  by (simp add: main_unfold before_server_def split: ext.splits option.splits if_splits)

lemma printed_when_served:
  "Run_server h c v \<in> set (trace (main X argc argv)) \<Longrightarrow>
     printed (trace (main X argc argv)) = [banner, reported_name X @ [newline]]"
  by (auto simp: main_unfold reported_name_def split: ext.splits option.splits if_splits)

text \<open>
  Claim C8 says that on a failure path the program's own output is exactly one line,
  the one naming the registered model. In the run where an exception escapes from the
  server, \<open>main\<close> has printed two lines: the fixed banner of line 9 and the component
  name of line 19.
\<close>

theorem two_lines_printed:
  "printed (trace (main server_throws_externals 1 [''cem-grpc4bmi-server''])) =
     [''CEM grpc4bmi server'' @ [CHR 0x0A], ''cem'' @ [CHR 0x0A]]
   \<and> result (main server_throws_externals 1 [''cem-grpc4bmi-server'']) = Terminated"
  by (simp add: server_throws_run trace_def result_def banner_def newline_def)

text \<open>
  Claim C8, amended. On every path \<open>main\<close> prints the fixed banner and then at most one
  more line, the name the handle reports; all of it before the server is called; and on
  every path that reaches the server it has printed exactly these two lines.
\<close>

theorem own_output:
  "(printed (trace (main X argc argv)) = [banner]
      \<or> printed (trace (main X argc argv)) = [banner, reported_name X @ [newline]])
   \<and> printed (before_server (trace (main X argc argv))) = printed (trace (main X argc argv))
   \<and> (\<forall>h c v. Run_server h c v \<in> set (trace (main X argc argv)) \<longrightarrow>
         printed (trace (main X argc argv)) = [banner, reported_name X @ [newline]])"
  using printed_lines [of X argc argv] printed_before_server [of X argc argv]
    printed_when_served [of _ _ _ X argc argv]
  by blast

theorem own_output_witness:
  "Run_server (Some 4096) 0 [] \<in> set (trace (main sample_externals 0 []))
   \<and> printed (trace (main sample_externals 0 [])) = [banner, ''cem'' @ [newline]]"
proof -
  have t: "Run_server (Some 4096) 0 [] \<in> set (trace (main sample_externals 0 []))"
    by (simp add: sample_run trace_def startup_sequence_def)
  from own_output [of sample_externals 0 "[]"] t sample_reported_name
  show ?thesis by auto
qed

subsection \<open>The unchecked handle\<close>

lemma first_three_events:
  "take 3 (trace (main X argc argv)) = [Printf banner, Malloc (malloc X), Register (malloc X)]"
  by (simp add: main_unfold split: ext.splits option.splits if_splits)

lemma null_handle_dereferenced:
  "malloc X = None \<Longrightarrow> register_bmi_cem X None = Returns bmi \<Longrightarrow>
     main X argc argv = ([Printf banner, Malloc None, Register None], Undefined)"
  by (simp add: main_unfold)

lemma exit_needs_handle:
  "result (main X argc argv) = Exit c \<Longrightarrow> malloc X \<noteq> None"
  by (auto simp: main_unfold split: ext.splits option.splits if_splits)

text \<open>
  Claim C9. The result of \<open>malloc\<close> is never tested: whatever it is, the next step is
  the call of \<open>register_bmi_cem\<close> with it. When it is the null pointer and the registrar
  returns, \<open>main\<close> dereferences the null handle, which is undefined; there is no error
  branch, so \<open>main\<close> returns a code only when the allocation has succeeded.
\<close>

theorem malloc_result_untested:
  "take 3 (trace (main X argc argv)) = [Printf banner, Malloc (malloc X), Register (malloc X)]
   \<and> (malloc X = None \<longrightarrow>
        (\<forall>bmi. register_bmi_cem X None = Returns bmi \<longrightarrow>
           main X argc argv = ([Printf banner, Malloc None, Register None], Undefined)))
   \<and> (\<forall>c. result (main X argc argv) = Exit c \<longrightarrow> malloc X \<noteq> None)"
  using first_three_events [of X argc argv] null_handle_dereferenced [of X _ argc argv]
    exit_needs_handle [of X argc argv]
  by blast

theorem malloc_result_untested_witness:
  "malloc alloc_fails_externals = None
   \<and> register_bmi_cem alloc_fails_externals None = Returns sample_bmi
   \<and> main alloc_fails_externals 2 [''cem-grpc4bmi-server'', ''55555''] =
       ([Printf banner, Malloc None, Register None], Undefined)
   \<and> result (main sample_externals 2 [''cem-grpc4bmi-server'', ''55555'']) = Exit 0
   \<and> malloc sample_externals \<noteq> None"
proof -
  have m: "malloc alloc_fails_externals = None"
    by (simp add: sample_defs)
  have r: "register_bmi_cem alloc_fails_externals None = Returns sample_bmi"
    by (simp add: alloc_fails_externals_def sample_externals_def)
  have e: "result (main sample_externals 2 [''cem-grpc4bmi-server'', ''55555'']) = Exit 0"
    by (simp add: sample_run result_def)
  from malloc_result_untested [of alloc_fails_externals 2 "[''cem-grpc4bmi-server'', ''55555'']"]
    malloc_result_untested [of sample_externals 2 "[''cem-grpc4bmi-server'', ''55555'']"] m r e
  show ?thesis by blast
qed

subsection \<open>The name buffer\<close>

lemma store_name_length:
  "store_name n ws = Some model_name \<Longrightarrow> length model_name = n"
  by (auto simp: store_name_def split: if_splits)

lemma name_query_defined:
  "malloc X = Some a \<Longrightarrow> register_bmi_cem X (Some a) = Returns bmi \<Longrightarrow>
   get_component_name bmi = Some f \<Longrightarrow> f a = Returns ws \<Longrightarrow>
   length ws \<le> BMI_MAX_COMPONENT_NAME X \<Longrightarrow> NUL \<in> set ws \<Longrightarrow>
     take 6 (trace (main X argc argv)) =
       [Printf banner, Malloc (Some a), Register (Some a), Get_component_name (Some a),
        Printf (takeWhile (\<lambda>c. c \<noteq> NUL) ws @ [newline]), Run_server (Some a) argc argv]"
  by (simp add: main_unfold split: ext.splits)

lemma name_query_undefined:
  "malloc X = Some a \<Longrightarrow> register_bmi_cem X (Some a) = Returns bmi \<Longrightarrow>
   get_component_name bmi = Some f \<Longrightarrow> f a = Returns ws \<Longrightarrow>
   \<not> (length ws \<le> BMI_MAX_COMPONENT_NAME X \<and> NUL \<in> set ws) \<Longrightarrow>
     main X argc argv =
       ([Printf banner, Malloc (Some a), Register (Some a), Get_component_name (Some a)],
        Undefined)"
  by (auto simp: main_unfold)

text \<open>
  Claim C10. The callback is given the buffer and no capacity; the buffer holds exactly
  \<open>BMI_MAX_COMPONENT_NAME\<close> bytes. When the callback returns, the \<open>printf\<close> of the
  buffer is defined exactly when what the callback stored fits into those bytes and
  holds a NUL: then the bytes before the first NUL are printed and the server is called;
  otherwise the run ends undefined right after the query.
\<close>

theorem name_buffer_precondition:
  assumes "malloc X = Some a" and "register_bmi_cem X (Some a) = Returns bmi"
    and "get_component_name bmi = Some f" and "f a = Returns ws"
  shows "(\<forall>model_name. store_name (BMI_MAX_COMPONENT_NAME X) ws = Some model_name \<longrightarrow>
            length model_name = BMI_MAX_COMPONENT_NAME X)
    \<and> (if length ws \<le> BMI_MAX_COMPONENT_NAME X \<and> NUL \<in> set ws
       then take 6 (trace (main X argc argv)) =
              [Printf banner, Malloc (Some a), Register (Some a), Get_component_name (Some a),
               Printf (takeWhile (\<lambda>c. c \<noteq> NUL) ws @ [newline]), Run_server (Some a) argc argv]
       else main X argc argv =
              ([Printf banner, Malloc (Some a), Register (Some a), Get_component_name (Some a)],
               Undefined))"
  using store_name_length [of "BMI_MAX_COMPONENT_NAME X" ws]
    name_query_defined [OF assms, of argc argv] name_query_undefined [OF assms, of argc argv]
  by (simp split: if_splits)

theorem name_buffer_precondition_witness:
  "malloc sample_externals = Some 4096
   \<and> register_bmi_cem sample_externals (Some 4096) = Returns sample_bmi
   \<and> get_component_name sample_bmi = Some sample_get_component_name
   \<and> sample_get_component_name 4096 = Returns (''cem'' @ [NUL])
   \<and> take 6 (trace (main sample_externals 1 [''cem-grpc4bmi-server''])) =
       [Printf banner, Malloc (Some 4096), Register (Some 4096), Get_component_name (Some 4096),
        Printf (''cem'' @ [newline]), Run_server (Some 4096) 1 [''cem-grpc4bmi-server'']]
   \<and> malloc small_buffer_externals = Some 4096
   \<and> register_bmi_cem small_buffer_externals (Some 4096) = Returns sample_bmi
   \<and> main small_buffer_externals 1 [''cem-grpc4bmi-server''] =
       ([Printf banner, Malloc (Some 4096), Register (Some 4096), Get_component_name (Some 4096)],
        Undefined)"
proof -
  have m: "malloc sample_externals = Some 4096"
    and r: "register_bmi_cem sample_externals (Some 4096) = Returns sample_bmi"
    by (simp_all add: sample_externals_def)
  have m': "malloc small_buffer_externals = Some 4096"
    and r': "register_bmi_cem small_buffer_externals (Some 4096) = Returns sample_bmi"
    by (simp_all add: small_buffer_externals_def sample_externals_def)
  have g: "get_component_name sample_bmi = Some sample_get_component_name"
    by (simp add: sample_bmi_def)
  have w: "sample_get_component_name 4096 = Returns (''cem'' @ [NUL])"
    by (simp add: sample_get_component_name_def)
  have n: "BMI_MAX_COMPONENT_NAME sample_externals = 2048"
    "BMI_MAX_COMPONENT_NAME small_buffer_externals = 3"
    by (simp_all add: small_buffer_externals_def sample_externals_def)
  from name_buffer_precondition [OF m r g w, of 1 "[''cem-grpc4bmi-server'']"]
    name_buffer_precondition [OF m' r' g w, of 1 "[''cem-grpc4bmi-server'']"]
    m r g w m' r' n
  show ?thesis by (simp add: NUL_def)
qed

end
